theory Spec2Isabelle
  imports
    Complex_Main
    "HOL-Library.Multiset"
    "HOL-Library.Char_ord"
    "HOL-Library.List_Lexorder"
    "HOL-Library.Product_Lexorder"
begin

section \<open>The bill ledger of \<^verbatim>\<open>spreadsheet_manager.py\<close>\<close>

text \<open>
  The class \<^verbatim>\<open>SpreadsheetManager\<close> keeps a pandas data frame of bill records, appends to
  it, summarises it and writes it to Excel workbooks. The embedding below follows the
  class method by method.

  Modelling decisions, all of them about the libraries the class calls:
  \<^item> a data frame is the list of its rows, in index order, and every row has the nine
    typed columns of the class (\<^verbatim>\<open>_create_empty_dataframe\<close>); a frame that was read from
    a workbook with other columns is outside the model;
  \<^item> a \<^verbatim>\<open>pd.Timestamp\<close> is its calendar fields and a flag that says whether it is
    timezone-aware; an aware timestamp is in UTC, as pandas reads an ISO string that ends
    in \<^verbatim>\<open>Z\<close>, and other zones are outside the model; \<^verbatim>\<open>pd.NaT\<close> is a value of its own,
    and the \<^verbatim>\<open>nan\<close> that \<^verbatim>\<open>NaT.year\<close> returns is \<open>None\<close>;
  \<^item> aware dates make \<^verbatim>\<open>save\<close> raise, and \<^verbatim>\<open>save\<close> is modelled with these failures;
    \<^verbatim>\<open>get_summary\<close> and the two exports are modelled on ledgers of naive dates, where
    the order of two dates is the order of their fields;
  \<^item> amounts are real numbers: rounding, infinities and \<^verbatim>\<open>nan\<close> of the 64-bit floats
    are outside the model;
  \<^item> the library functions whose result depends on text parsing, on the clock or on a
    file format (\<^verbatim>\<open>pd.to_datetime\<close>, \<^verbatim>\<open>float\<close> on a string, \<^verbatim>\<open>pd.Timestamp.now\<close>,
    \<^verbatim>\<open>pd.read_excel\<close>, \<^verbatim>\<open>str\<close> of a timestamp, the \<^verbatim>\<open>.2f\<close> format, \<^verbatim>\<open>Path.resolve\<close>,
    and what the Excel writer leaves in a file when a sheet fails part-way) are fields of
    an environment record, so every theorem holds for whatever they compute;
  \<^item> \<^verbatim>\<open>sort_values\<close> is a stable sort with missing dates last; pandas does not promise
    the order of rows with equal keys, and no theorem below depends on it.
\<close>

subsection \<open>Timestamps\<close>

record timestamp =
  ts_year :: int
  ts_month :: nat
  ts_day :: nat
  ts_nanos :: nat
  ts_utc :: bool

text \<open>Chronological order is the lexicographic order of the calendar fields.\<close>

definition ts_key :: "timestamp \<Rightarrow> int \<times> nat \<times> nat \<times> nat" where
  "ts_key t = (ts_year t, ts_month t, ts_day t, ts_nanos t)"

datatype datetime = NaT | Ts timestamp

fun dt_year :: "datetime \<Rightarrow> int option" where
  "dt_year NaT = None"
| "dt_year (Ts t) = Some (ts_year t)"

fun dt_month :: "datetime \<Rightarrow> nat option" where
  "dt_month NaT = None"
| "dt_month (Ts t) = Some (ts_month t)"

subsection \<open>Records, frames and the manager's state\<close>

datatype error = ValueError string | TypeError string | LibraryError string

text \<open>The values a caller may put under the key \<^verbatim>\<open>amount\<close>.\<close>

datatype pyval = PyNone | PyFloat real | PyInt int | PyStr string

text \<open>
  The argument of \<^verbatim>\<open>add_record\<close> is a dictionary; a key that is absent is \<open>None\<close>.
  The text fields hold strings, as the tool schema of \<^verbatim>\<open>healthcare_agent.py\<close> declares.
\<close>

record bill_input =
  in_provider :: "string option"
  in_date :: "string option"
  in_amount :: "pyval option"
  in_category :: "string option"
  in_description :: "string option"
  in_pdf_path :: "string option"

record row =
  date :: datetime
  provider :: string
  amount :: real
  category :: string
  description :: string
  pdf_path :: string
  year :: "int option"
  month :: "nat option"
  added_on :: timestamp

type_synonym frame = "row list"

datatype cell = CStr string | CNum real | CInt int | CTime timestamp | CEmpty

text \<open>A sheet is its header line and its body lines; a workbook is its sheets in order.\<close>

type_synonym sheet = "string list \<times> cell list list"

type_synonym workbook = "(string \<times> sheet) list"

datatype disk_file = Workbook workbook | Bytes string

record state =
  workbook_path :: string
  df :: frame
  files :: "string \<rightharpoonup> disk_file"
  ticks :: nat
  stdout :: "string list"

record env =
  to_datetime :: "string \<Rightarrow> error + datetime"
  to_datetime_column :: "frame \<Rightarrow> error + frame"
  float_of_str :: "string \<Rightarrow> real option"
  now :: "nat \<Rightarrow> timestamp"
  read_excel :: "disk_file \<Rightarrow> string \<Rightarrow> error + frame"
  str_datetime :: "datetime \<Rightarrow> string"
  format_2f :: "real \<Rightarrow> string"
  resolve :: "string \<Rightarrow> string"
  partial_write :: "frame \<Rightarrow> disk_file"

subsection \<open>Python built-ins\<close>

definition dict_get :: "'a option \<Rightarrow> 'a \<Rightarrow> 'a" where
  "dict_get v dflt = (case v of None \<Rightarrow> dflt | Some x \<Rightarrow> x)"

text \<open>
  \<^verbatim>\<open>float(x)\<close>: a string goes through the parser, \<^verbatim>\<open>None\<close> is a type error. (The
  \<^verbatim>\<open>OverflowError\<close> of an integer beyond the float range has no counterpart on the reals.)
\<close>

fun py_float :: "env \<Rightarrow> pyval \<Rightarrow> error + real" where
  "py_float e (PyFloat x) = Inr x"
| "py_float e (PyInt i) = Inr (of_int i)"
| "py_float e (PyStr s) =
     (case float_of_str e s of
        Some x \<Rightarrow> Inr x
      | None \<Rightarrow>
          Inl (ValueError (''could not convert string to float: '' @ [CHR 0x27] @ s @ [CHR 0x27])))"
| "py_float e PyNone =
     Inl (TypeError (''float() argument must be a string or a real number, not ''
                     @ [CHR 0x27] @ ''NoneType'' @ [CHR 0x27]))"

text \<open>\<^verbatim>\<open>pd.Timestamp.now()\<close> reads the clock; the next call reads the next value.\<close>

definition timestamp_now :: "env \<Rightarrow> state \<Rightarrow> timestamp \<times> state" where
  "timestamp_now e s = (now e (ticks s), s\<lparr>ticks := Suc (ticks s)\<rparr>)"

subsection \<open>\<^verbatim>\<open>add_record\<close>\<close>

text \<open>
  The date is parsed first, with the clock as fallback when the parser raises; the row
  dictionary is then built in source order, where only \<^verbatim>\<open>float(...)\<close> can raise; the
  frame is replaced last. The result is the exception, if any, and the state left behind.
\<close>

definition add_record :: "env \<Rightarrow> bill_input \<Rightarrow> state \<Rightarrow> error option \<times> state" where
  "add_record e record s =
     (let date_str = dict_get (in_date record) '''';
          (d, s1) = (case to_datetime e date_str of
                       Inr d \<Rightarrow> (d, s)
                     | Inl _ \<Rightarrow> (let (t, s') = timestamp_now e s in (Ts t, s')))
      in case py_float e (dict_get (in_amount record) (PyFloat 0)) of
           Inl err \<Rightarrow> (Some err, s1)
         | Inr a \<Rightarrow>
             (let (stamp, s2) = timestamp_now e s1;
                  new_row = \<lparr>date = d,
                             provider = dict_get (in_provider record) '''',
                             amount = a,
                             category = dict_get (in_category record) ''medical'',
                             description = dict_get (in_description record) '''',
                             pdf_path = dict_get (in_pdf_path record) '''',
                             year = dt_year d,
                             month = dt_month d,
                             added_on = stamp\<rparr>
              in (None, s2\<lparr>df := df s2 @ [new_row]\<rparr>)))"

subsection \<open>pandas operations on a frame\<close>

text \<open>\<^verbatim>\<open>df.empty\<close>: the frame has no rows (its nine columns are always there).\<close>

definition df_empty :: "frame \<Rightarrow> bool" where
  "df_empty d = (d = [])"

text \<open>\<^verbatim>\<open>df["amount"].sum()\<close>; the sum of no rows is 0.\<close>

definition series_sum :: "frame \<Rightarrow> real" where
  "series_sum d = sum_list (map amount d)"




text \<open>
  \<^verbatim>\<open>df.sort_values("date", ascending=...)\<close>: rows without a date go last in both
  directions; a descending sort is the ascending sort of the reversed rows, reversed.
\<close>

definition date_key :: "row \<Rightarrow> int \<times> nat \<times> nat \<times> nat" where
  "date_key r = (case date r of Ts t \<Rightarrow> ts_key t | NaT \<Rightarrow> (0, 0, 0, 0))"

definition sort_values_date :: "bool \<Rightarrow> frame \<Rightarrow> frame" where
  "sort_values_date ascending d =
     (let present = filter (\<lambda>r. date r \<noteq> NaT) d;
          missing = filter (\<lambda>r. date r = NaT) d
      in (if ascending then sort_key date_key present
          else rev (sort_key date_key (rev present))) @ missing)"

text \<open>
  \<^verbatim>\<open>df.groupby(key)\<close>: one group per key value that occurs, in ascending key order; a
  row whose key is missing (\<open>None\<close>) is in no group. Each group keeps its rows in frame
  order.
\<close>

definition group_keys :: "(row \<Rightarrow> 'k::linorder option) \<Rightarrow> frame \<Rightarrow> 'k list" where
  "group_keys key d = sort (remdups (List.map_filter key d))"

definition groupby :: "(row \<Rightarrow> 'k::linorder option) \<Rightarrow> frame \<Rightarrow> ('k \<times> frame) list" where
  "groupby key d = map (\<lambda>k. (k, filter (\<lambda>r. key r = Some k) d)) (group_keys key d)"

text \<open>\<^verbatim>\<open>groupby(key)["amount"].sum()\<close>, as the list of its lines.\<close>

definition groupby_sum :: "(row \<Rightarrow> 'k::linorder option) \<Rightarrow> frame \<Rightarrow> ('k \<times> real) list" where
  "groupby_sum key d = map (\<lambda>(k, g). (k, series_sum g)) (groupby key d)"

text \<open>The keys of the groupings: a text column is never missing, a year may be.\<close>

definition category_key :: "row \<Rightarrow> string option" where
  "category_key r = Some (category r)"

definition provider_key :: "row \<Rightarrow> string option" where
  "provider_key r = Some (provider r)"

text \<open>\<^verbatim>\<open>str(int)\<close> and \<^verbatim>\<open>strftime("%B")\<close> (English month names).\<close>

definition digit :: "nat \<Rightarrow> char" where
  "digit n = ''0123456789'' ! n"

fun str_nat :: "nat \<Rightarrow> string" where
  "str_nat n = (if n < 10 then [digit n] else str_nat (n div 10) @ [digit (n mod 10)])"

declare str_nat.simps [simp del]

definition py_str_int :: "int \<Rightarrow> string" where
  "py_str_int i = (if i < 0 then CHR ''-'' # str_nat (nat (- i)) else str_nat (nat i))"

definition month_names :: "string list" where
  "month_names = [''January'', ''February'', ''March'', ''April'', ''May'', ''June'', ''July'',
                  ''August'', ''September'', ''October'', ''November'', ''December'']"

definition month_name :: "nat \<Rightarrow> string" where
  "month_name m = (if 1 \<le> m \<and> m \<le> 12 then month_names ! (m - 1) else [])"

definition strftime_B :: "timestamp \<Rightarrow> string" where
  "strftime_B t = month_name (ts_month t)"

definition str_error :: "error \<Rightarrow> string" where
  "str_error x = (case x of ValueError m \<Rightarrow> m | TypeError m \<Rightarrow> m | LibraryError m \<Rightarrow> m)"

subsection \<open>Loading\<close>

definition bill_columns :: "string list" where
  "bill_columns = [''date'', ''provider'', ''amount'', ''category'', ''description'',
                   ''pdf_path'', ''year'', ''month'', ''added_on'']"

text \<open>\<^verbatim>\<open>_create_empty_dataframe\<close>: the nine columns and no row.\<close>

definition create_empty_dataframe :: frame where
  "create_empty_dataframe = []"

text \<open>
  \<^verbatim>\<open>_load_or_create_dataframe\<close>: the \<^verbatim>\<open>try\<close> block reads the sheet and converts its date
  column; whatever either step raises is caught, printed and replaced by the empty frame.
\<close>

definition load_or_create_dataframe :: "env \<Rightarrow> state \<Rightarrow> frame \<times> state" where
  "load_or_create_dataframe e s =
     (case files s (workbook_path s) of
        Some f \<Rightarrow>
          (case (case read_excel e f ''Bills'' of
                   Inl x \<Rightarrow> Inl x
                 | Inr d \<Rightarrow> to_datetime_column e d) of
             Inr d \<Rightarrow> (d, s)
           | Inl x \<Rightarrow>
               (create_empty_dataframe,
                s\<lparr>stdout := stdout s @ [''Warning: Could not load existing file: '' @ str_error x]\<rparr>))
      | None \<Rightarrow> (create_empty_dataframe, s))"

text \<open>\<^verbatim>\<open>__init__\<close>.\<close>

definition init :: "env \<Rightarrow> string \<Rightarrow> state \<Rightarrow> state" where
  "init e path s =
     (let s1 = s\<lparr>workbook_path := resolve e path\<rparr>;
          (d, s2) = load_or_create_dataframe e s1
      in s2\<lparr>df := d\<rparr>)"

subsection \<open>\<^verbatim>\<open>get_summary\<close>\<close>



subsection \<open>Writing sheets\<close>

definition datetime_cell :: "datetime \<Rightarrow> cell" where
  "datetime_cell d = (case d of Ts t \<Rightarrow> CTime t | NaT \<Rightarrow> CEmpty)"

definition year_cell :: "int option \<Rightarrow> cell" where
  "year_cell y = (case y of Some i \<Rightarrow> CInt i | None \<Rightarrow> CEmpty)"

definition month_cell :: "nat option \<Rightarrow> cell" where
  "month_cell m = (case m of Some i \<Rightarrow> CInt (int i) | None \<Rightarrow> CEmpty)"

text \<open>\<^verbatim>\<open>df.to_excel(writer, sheet_name="Bills", index=False)\<close>: the nine columns, a line per row.\<close>

definition bills_cells :: "row \<Rightarrow> cell list" where
  "bills_cells r =
     [datetime_cell (date r), CStr (provider r), CNum (amount r), CStr (category r),
      CStr (description r), CStr (pdf_path r), year_cell (year r), month_cell (month r),
      CTime (added_on r)]"

definition bills_sheet :: "frame \<Rightarrow> sheet" where
  "bills_sheet d = (bill_columns, map bills_cells d)"

text \<open>
  \<^verbatim>\<open>_write_summary_sheets\<close>. The aggregation \<^verbatim>\<open>"provider": "count"\<close> counts the rows of the
  group whose provider is present, which is every row; \<^verbatim>\<open>"date": "count"\<close> counts the
  rows of the group whose date is not \<^verbatim>\<open>NaT\<close>. The provider sheet is then sorted by amount,
  descending. The group key is the index, written as the first column.
\<close>

definition count_provider :: "frame \<Rightarrow> nat" where
  "count_provider g = length g"

definition count_date :: "frame \<Rightarrow> nat" where
  "count_date g = length (filter (\<lambda>r. date r \<noteq> NaT) g)"

definition year_summary :: "frame \<Rightarrow> (int \<times> real \<times> nat) list" where
  "year_summary d = map (\<lambda>(k, g). (k, series_sum g, count_provider g)) (groupby year d)"

definition category_summary :: "frame \<Rightarrow> (string \<times> real \<times> nat) list" where
  "category_summary d =
     map (\<lambda>(k, g). (k, series_sum g, count_provider g)) (groupby category_key d)"

definition sort_amount_desc :: "('k \<times> real \<times> nat) list \<Rightarrow> ('k \<times> real \<times> nat) list" where
  "sort_amount_desc xs = rev (sort_key (\<lambda>(k, a, n). a) (rev xs))"

definition provider_summary :: "frame \<Rightarrow> (string \<times> real \<times> nat) list" where
  "provider_summary d =
     sort_amount_desc
       (map (\<lambda>(k, g). (k, series_sum g, count_date g)) (groupby provider_key d))"

definition write_summary_sheets :: "frame \<Rightarrow> workbook" where
  "write_summary_sheets d =
     (if df_empty d then []
      else
        [(''By Year'',
          ([''year'', ''amount'', ''num_bills''],
           map (\<lambda>(k, a, n). [CInt k, CNum a, CInt (int n)]) (year_summary d))),
         (''By Category'',
          ([''category'', ''amount'', ''num_bills''],
           map (\<lambda>(k, a, n). [CStr k, CNum a, CInt (int n)]) (category_summary d))),
         (''By Provider'',
          ([''provider'', ''amount'', ''num_bills''],
           map (\<lambda>(k, a, n). [CStr k, CNum a, CInt (int n)]) (provider_summary d)))])"

subsection \<open>\<^verbatim>\<open>save\<close>\<close>

text \<open>A row whose date is timezone-aware, and one whose date is timezone-naive.\<close>

definition tz_aware :: "row \<Rightarrow> bool" where
  "tz_aware r = (case date r of Ts t \<Rightarrow> ts_utc t | NaT \<Rightarrow> False)"

definition tz_naive :: "row \<Rightarrow> bool" where
  "tz_naive r = (case date r of Ts t \<Rightarrow> \<not> ts_utc t | NaT \<Rightarrow> False)"

text \<open>
  The result is the exception, if any, and the state left behind.

  \<^verbatim>\<open>sort_values\<close> comes first: with a naive and an aware date in the column the
  comparison of the two raises \<^verbatim>\<open>TypeError\<close>, before \<^verbatim>\<open>self.df\<close> is assigned and before
  any file is opened. The writer then opens the workbook path for writing, so the old
  file is gone from here on. \<^verbatim>\<open>to_excel\<close> raises \<^verbatim>\<open>ValueError\<close> on an aware date; the
  \<^verbatim>\<open>with\<close> block closes the writer, which leaves at the path what it had written so far,
  and the error goes to the caller. Otherwise the file holds the sheets of this call and
  nothing else. \<^verbatim>\<open>_format_bills_sheet\<close> sets fills, fonts, alignment and column widths
  and no cell value; sheets here are values only.
\<close>

definition save :: "env \<Rightarrow> state \<Rightarrow> error option \<times> state" where
  "save e s =
     (if df_empty (df s) then
        (None, s\<lparr>stdout := stdout s @ [''Warning: No data to save'']\<rparr>)
      else if list_ex tz_aware (df s) \<and> list_ex tz_naive (df s) then
        (Some (TypeError ''Cannot compare tz-naive and tz-aware timestamps''), s)
      else
        (let s1 = s\<lparr>df := sort_values_date False (df s)\<rparr>
         in if list_ex tz_aware (df s1) then
              (Some (ValueError ''Excel does not support datetimes with timezones. Please ensure that datetimes are timezone unaware before writing to Excel.''),
               s1\<lparr>files := (files s1)(workbook_path s1 \<mapsto> partial_write e (df s1))\<rparr>)
            else
              (let book = (''Bills'', bills_sheet (df s1)) # write_summary_sheets (df s1);
                   s2 = s1\<lparr>files := (files s1)(workbook_path s1 \<mapsto> Workbook book)\<rparr>
               in (None, s2\<lparr>stdout := stdout s2 @ [''Saved to '' @ workbook_path s2]\<rparr>))))"

subsection \<open>\<^verbatim>\<open>export_for_taxes\<close>\<close>

definition details_sheet :: "frame \<Rightarrow> sheet" where
  "details_sheet d =
     ([''date'', ''provider'', ''category'', ''amount'', ''description''],
      map (\<lambda>r. [datetime_cell (date r), CStr (provider r), CStr (category r),
                 CNum (amount r), CStr (description r)]) d)"

definition category_summary_sheet :: "frame \<Rightarrow> sheet" where
  "category_summary_sheet d =
     ([''Category'', ''Total Amount''],
      map (\<lambda>(k, a). [CStr k, CNum a]) (groupby_sum category_key d))"

text \<open>
  The monthly summary groups by the pair of the \<^verbatim>\<open>month\<close> column and the month name of
  the date, sorts the groups by month and writes the two columns \<^verbatim>\<open>month_name\<close> and
  \<^verbatim>\<open>amount\<close>, without the index.
\<close>

definition month_key :: "row \<Rightarrow> (nat \<times> string) option" where
  "month_key r =
     (case (month r, date r) of
        (Some m, Ts t) \<Rightarrow> Some (m, strftime_B t)
      | _ \<Rightarrow> None)"

definition monthly_summary :: "frame \<Rightarrow> ((nat \<times> string) \<times> real) list" where
  "monthly_summary d = sort_key (\<lambda>((m, n), a). m) (groupby_sum month_key d)"

definition monthly_summary_sheet :: "frame \<Rightarrow> sheet" where
  "monthly_summary_sheet d =
     ([''month_name'', ''amount''],
      map (\<lambda>((m, n), a). [CStr n, CNum a]) (monthly_summary d))"

definition summary_sheet :: "env \<Rightarrow> int \<Rightarrow> frame \<Rightarrow> sheet" where
  "summary_sheet e yr d =
     ([''Metric'', ''Value''],
      [[CStr ''Total Amount'', CStr (CHR ''$'' # format_2f e (series_sum d))],
       [CStr ''Number of Bills'', CInt (int (length d))],
       [CStr ''Average Bill Amount'',
        CStr (CHR ''$'' # format_2f e (series_sum d / real (length d)))],
       [CStr ''Tax Year'', CInt yr]])"

definition export_for_taxes ::
    "env \<Rightarrow> int \<Rightarrow> string option \<Rightarrow> state \<Rightarrow> (error + string) \<times> state" where
  "export_for_taxes e yr output_path s =
     (let out = resolve e (case output_path of
                             None \<Rightarrow> ''tax_export_'' @ py_str_int yr @ ''.xlsx''
                           | Some p \<Rightarrow> p);
          year_df = filter (\<lambda>r. year r = Some yr) (df s)
      in if df_empty year_df then
           (Inl (ValueError (''No records found for year '' @ py_str_int yr)), s)
         else
           (let year_df = sort_values_date True year_df;
                book = [(''Details'', details_sheet year_df),
                        (''Category Summary'', category_summary_sheet year_df),
                        (''Monthly Summary'', monthly_summary_sheet year_df),
                        (''Summary'', summary_sheet e yr year_df)];
                s1 = s\<lparr>files := (files s)(out \<mapsto> Workbook book)\<rparr>
            in (Inr out,
                s1\<lparr>stdout := stdout s1 @
                       [''Tax export for '' @ py_str_int yr @ '' saved to '' @ out]\<rparr>)))"

subsection \<open>\<^verbatim>\<open>export_hsa_reconciliation\<close>\<close>

definition hsa_eligible_categories :: "string list" where
  "hsa_eligible_categories = [''medical'', ''dental'', ''vision'', ''prescription'', ''pharmacy'']"

definition hsa_expenses_sheet :: "frame \<Rightarrow> sheet" where
  "hsa_expenses_sheet d =
     ([''date'', ''provider'', ''category'', ''amount'', ''description'', ''pdf_path''],
      map (\<lambda>r. [datetime_cell (date r), CStr (provider r), CStr (category r),
                 CNum (amount r), CStr (description r), CStr (pdf_path r)]) d)"

definition yearly_totals_sheet :: "frame \<Rightarrow> sheet" where
  "yearly_totals_sheet d =
     ([''Year'', ''Total HSA-Eligible Amount''],
      map (\<lambda>(k, a). [CInt k, CNum a]) (groupby_sum year d))"

definition export_hsa_reconciliation ::
    "env \<Rightarrow> string option \<Rightarrow> state \<Rightarrow> (error + string) \<times> state" where
  "export_hsa_reconciliation e output_path s =
     (let out = resolve e (case output_path of
                             None \<Rightarrow> ''hsa_reconciliation.xlsx''
                           | Some p \<Rightarrow> p);
          hsa_df = filter (\<lambda>r. category r \<in> set hsa_eligible_categories) (df s)
      in if df_empty hsa_df then (Inl (ValueError ''No HSA-eligible records found''), s)
         else
           (let hsa_df = sort_values_date True hsa_df;
                book = [(''HSA Expenses'', hsa_expenses_sheet hsa_df),
                        (''Yearly Totals'', yearly_totals_sheet hsa_df)];
                s1 = s\<lparr>files := (files s)(out \<mapsto> Workbook book)\<rparr>
            in (Inr out, s1\<lparr>stdout := stdout s1 @ [''HSA reconciliation saved to '' @ out]\<rparr>)))"

subsection \<open>Properties of a ledger\<close>



fun date_ge :: "datetime \<Rightarrow> datetime \<Rightarrow> bool" where
  "date_ge d NaT = True"
| "date_ge NaT (Ts t) = False"
| "date_ge (Ts a) (Ts b) = (ts_key b \<le> ts_key a)"

definition date_descending :: "frame \<Rightarrow> bool" where
  "date_descending d = sorted_wrt (\<lambda>a b. date_ge (date a) (date b)) d"


text \<open>The sheet of a given name in the workbook stored at a path, if there is one.\<close>

definition read_sheet :: "state \<Rightarrow> string \<Rightarrow> string \<Rightarrow> sheet option" where
  "read_sheet s path name =
     (case files s path of Some (Workbook book) \<Rightarrow> map_of book name | _ \<Rightarrow> None)"







text \<open>The derived columns of a row agree with its date.\<close>

definition row_consistent :: "row \<Rightarrow> bool" where
  "row_consistent r = (year r = dt_year (date r) \<and> month r = dt_month (date r))"

definition ledger_consistent :: "frame \<Rightarrow> bool" where
  "ledger_consistent d = list_all row_consistent d"

subsection \<open>Concrete inputs\<close>

text \<open>
  An environment for the examples. Its parsers know the few strings used below and raise
  on the rest, as pandas and Python do on them; the empty date string gives \<^verbatim>\<open>NaT\<close> and
  the ISO string that ends in \<^verbatim>\<open>Z\<close> gives an aware timestamp. Its reader raises on a file
  that is not a workbook and on a workbook without the sheet; it reads a sheet that has
  the nine columns line by line, a blank cell as a missing value, and no example gives it
  another sheet. A timestamp at midnight is printed as pandas prints it. The \<^verbatim>\<open>.2f\<close>
  format and the path resolution are not looked at by any example, and the file that an
  interrupted write leaves is taken to hold the header of \<^verbatim>\<open>Bills\<close>. Then a ledger of four
  bills, and a state whose workbook path holds a file that is not a workbook.
\<close>

definition cell_datetime :: "cell \<Rightarrow> datetime option" where
  "cell_datetime c = (case c of CTime t \<Rightarrow> Some (Ts t) | CEmpty \<Rightarrow> Some NaT | _ \<Rightarrow> None)"

definition cell_int :: "cell \<Rightarrow> int option option" where
  "cell_int c = (case c of CInt i \<Rightarrow> Some (Some i) | CEmpty \<Rightarrow> Some None | _ \<Rightarrow> None)"

definition cell_str :: "cell \<Rightarrow> string option" where
  "cell_str c = (case c of CStr x \<Rightarrow> Some x | _ \<Rightarrow> None)"

definition cell_num :: "cell \<Rightarrow> real option" where
  "cell_num c = (case c of CNum x \<Rightarrow> Some x | CInt i \<Rightarrow> Some (of_int i) | _ \<Rightarrow> None)"

definition cell_time :: "cell \<Rightarrow> timestamp option" where
  "cell_time c = (case c of CTime t \<Rightarrow> Some t | _ \<Rightarrow> None)"

definition cells_row :: "cell list \<Rightarrow> row option" where
  "cells_row cs =
     (case cs of
        [d, p, a, c, ds, pp, y, m, t] \<Rightarrow>
          Option.bind (cell_datetime d) (\<lambda>d'.
          Option.bind (cell_str p) (\<lambda>p'.
          Option.bind (cell_num a) (\<lambda>a'.
          Option.bind (cell_str c) (\<lambda>c'.
          Option.bind (cell_str ds) (\<lambda>ds'.
          Option.bind (cell_str pp) (\<lambda>pp'.
          Option.bind (cell_int y) (\<lambda>y'.
          Option.bind (cell_int m) (\<lambda>m'.
          Option.bind (cell_time t) (\<lambda>t'.
            Some \<lparr>date = d', provider = p', amount = a', category = c', description = ds',
                  pdf_path = pp', year = y', month = map_option nat m', added_on = t'\<rparr>)))))))))
      | _ \<Rightarrow> None)"

definition example_read_excel :: "disk_file \<Rightarrow> string \<Rightarrow> error + frame" where
  "example_read_excel f n =
     (case f of
        Bytes b \<Rightarrow> Inl (LibraryError ''File is not a zip file'')
      | Workbook b \<Rightarrow>
          (case map_of b n of
             None \<Rightarrow> Inl (ValueError (''Worksheet named '' @ n @ '' not found''))
           | Some (header, body) \<Rightarrow>
               (if header = bill_columns \<and> list_all (\<lambda>cs. cells_row cs \<noteq> None) body
                then Inr (map (\<lambda>cs. the (cells_row cs)) body)
                else Inl (LibraryError ''a sheet that no example reads''))))"

definition two_digits :: "nat \<Rightarrow> string" where
  "two_digits n = [digit (n div 10), digit (n mod 10)]"

definition midnight :: "int \<Rightarrow> nat \<Rightarrow> nat \<Rightarrow> timestamp" where
  "midnight y m d = \<lparr>ts_year = y, ts_month = m, ts_day = d, ts_nanos = 0, ts_utc = False\<rparr>"

definition example_env :: env where
  "example_env =
     \<lparr>to_datetime = (\<lambda>x. if x = ''2024-01-15'' then Inr (Ts (midnight 2024 1 15))
                          else if x = ''2024-01-15T00:00:00Z''
                          then Inr (Ts ((midnight 2024 1 15)\<lparr>ts_utc := True\<rparr>))
                          else if x = [] then Inr NaT
                          else Inl (ValueError (''Unknown datetime string format, unable to parse: '' @ x))),
      to_datetime_column = Inr,
      float_of_str = (\<lambda>x. if x = ''120.00'' then Some 120 else None),
      now = (\<lambda>n. \<lparr>ts_year = 2026, ts_month = 11, ts_day = 4, ts_nanos = n, ts_utc = False\<rparr>),
      read_excel = example_read_excel,
      str_datetime = (\<lambda>d. case d of
                        NaT \<Rightarrow> ''NaT''
                      | Ts t \<Rightarrow> py_str_int (ts_year t) @ ''-'' @ two_digits (ts_month t) @ ''-''
                                 @ two_digits (ts_day t) @ '' 00:00:00''),
      format_2f = (\<lambda>x. []),
      resolve = id,
      partial_write = (\<lambda>d. Workbook [(''Bills'', (bill_columns, []))])\<rparr>"

definition bill :: "timestamp \<Rightarrow> string \<Rightarrow> real \<Rightarrow> string \<Rightarrow> row" where
  "bill t p a c =
     \<lparr>date = Ts t, provider = p, amount = a, category = c, description = [], pdf_path = [],
      year = Some (ts_year t), month = Some (ts_month t), added_on = midnight 2025 1 1\<rparr>"

definition example_ledger :: frame where
  "example_ledger =
     [bill (midnight 2024 1 15) ''Dr. Smith'' 120 ''medical'',
      bill (midnight 2024 3 2) ''Vision Co'' 80 ''vision'',
      bill (midnight 2023 11 1) ''Dr. Jones'' 50 ''medical'',
      bill (midnight 2024 3 20) ''Iron Gym'' 30 ''gym'']"

definition example_state :: state where
  "example_state =
     \<lparr>workbook_path = ''healthcare_bills.xlsx'', df = example_ledger,
      files = Map.empty(''healthcare_bills.xlsx'' \<mapsto> Bytes ''not a workbook''),
      ticks = 0, stdout = []\<rparr>"

definition example_input :: "string \<Rightarrow> pyval \<Rightarrow> bill_input" where
  "example_input d a =
     \<lparr>in_provider = Some ''Dr. Smith'', in_date = Some d, in_amount = Some a,
      in_category = None, in_description = None, in_pdf_path = None\<rparr>"

definition empty_state :: state where
  "empty_state = example_state\<lparr>df := []\<rparr>"



text \<open>
  A workbook in which the date of a bill was changed by hand from November 2023 to March
  2024, with the year and month cells left as they were; and a state whose workbook path
  holds it.
\<close>

definition edited_workbook :: disk_file where
  "edited_workbook =
     Workbook
       [(''Bills'',
         (bill_columns,
          [[CTime (midnight 2024 3 2), CStr ''Vision Co'', CNum 80, CStr ''vision'', CStr [],
            CStr [], CInt 2023, CInt 11, CTime (midnight 2025 1 1)]]))]"

definition edited_state :: state where
  "edited_state =
     \<lparr>workbook_path = ''healthcare_bills.xlsx'', df = [],
      files = Map.empty(''healthcare_bills.xlsx'' \<mapsto> edited_workbook),
      ticks = 0, stdout = []\<rparr>"

text \<open>
  A new ledger with no backing file, the input of a bill without a date, and the state
  after that bill was added.
\<close>

definition fresh_state :: state where
  "fresh_state =
     \<lparr>workbook_path = ''healthcare_bills.xlsx'', df = [], files = Map.empty, ticks = 0,
      stdout = []\<rparr>"

definition undated_input :: bill_input where
  "undated_input =
     \<lparr>in_provider = Some ''Dr. Under'', in_date = None, in_amount = Some (PyFloat 7),
      in_category = None, in_description = None, in_pdf_path = None\<rparr>"

definition undated_state :: state where
  "undated_state = snd (add_record example_env undated_input fresh_state)"

definition aware_state :: state where
  "aware_state =
     snd (add_record example_env (example_input ''2024-01-15T00:00:00Z'' (PyFloat 45))
            (example_state\<lparr>df := []\<rparr>))"

section \<open>Lemmas\<close>

subsection \<open>Sorting by date\<close>

lemma mset_sort_values_date: "mset (sort_values_date asc d) = mset d"
  by (simp add: sort_values_date_def Let_def)

lemma set_sort_values_date: "set (sort_values_date asc d) = set d"
  by (metis mset_sort_values_date set_mset_mset)

lemma length_sort_values_date: "length (sort_values_date asc d) = length d"
  by (metis mset_sort_values_date size_mset)


lemma date_ge_key:
  "date a \<noteq> NaT \<Longrightarrow> date b \<noteq> NaT \<Longrightarrow> date_ge (date a) (date b) = (date_key b \<le> date_key a)"
  by (cases "date a"; cases "date b") (simp_all add: date_key_def)


lemma sorted_key_descending:
  assumes "sorted (map date_key xs)" and "\<forall>r\<in>set xs. date r \<noteq> NaT"
  shows "sorted_wrt (\<lambda>a b. date_ge (date a) (date b)) (rev xs)"
  using assms
  by (induction xs) (auto simp: date_ge_key sorted_wrt_append)


lemma all_missing_sorted_ge:
  "\<forall>r\<in>set xs. date r = NaT \<Longrightarrow> sorted_wrt (\<lambda>a b. date_ge (date a) (date b)) xs"
  by (induction xs) auto


lemma date_descending_sort_values: "date_descending (sort_values_date False d)"
  unfolding date_descending_def sort_values_date_def Let_def
  by (simp add: sorted_wrt_append sorted_key_descending all_missing_sorted_ge)

subsection \<open>Grouping, minimum and maximum\<close>

lemma set_map_filter_key: "set (List.map_filter key d) = {k. \<exists>r\<in>set d. key r = Some k}"
  by (induction d) (auto split: option.splits)














subsection \<open>What each method does to the frame\<close>

lemma ledger_consistent_set: "ledger_consistent d = (\<forall>r\<in>set d. row_consistent r)"
  by (simp add: ledger_consistent_def list_all_iff)

lemma df_add_record:
  "df (snd (add_record e record s)) = df s \<or>
   (fst (add_record e record s) = None \<and>
    (\<exists>r. df (snd (add_record e record s)) = df s @ [r] \<and> row_consistent r))"
  by (simp add: add_record_def timestamp_now_def Let_def row_consistent_def
      split: sum.splits prod.splits)

lemma df_save:
  "df (snd (save e s)) = df s \<or> df (snd (save e s)) = sort_values_date False (df s)"
  by (simp add: save_def Let_def)

lemma set_df_save: "set (df (snd (save e s))) = set (df s)"
  using df_save [of e s] by (auto simp: set_sort_values_date)

lemma df_export_for_taxes: "df (snd (export_for_taxes e yr p s)) = df s"
  by (simp add: export_for_taxes_def Let_def)

lemma df_export_hsa_reconciliation: "df (snd (export_hsa_reconciliation e p s)) = df s"
  by (simp add: export_hsa_reconciliation_def Let_def)

lemma example_ledger_consistent: "ledger_consistent example_ledger"
  by (simp add: ledger_consistent_def example_ledger_def row_consistent_def bill_def)

section \<open>The claims\<close>

subsection \<open>C1: a date that does not parse\<close>




subsection \<open>C6: year and month follow the date\<close>

text \<open>
  C6, as amended. A call of \<^verbatim>\<open>add_record\<close> whose amount is coercible returns and appends
  exactly one row. Its date is the resolved date, which is the value of the parser when
  the parser returns and the clock reading when it raises, and its year and month are
  those of that date; the other fields are those of the input, and the rest of the state
  is untouched but for the clock. A ledger in which the year and month of every row are
  those of its date keeps this through \<^verbatim>\<open>add_record\<close> (returning or raising) and through
  \<^verbatim>\<open>save\<close> (returning or raising), which at most reorders the rows; the two exports leave
  the frame as it is, and \<^verbatim>\<open>get_summary\<close> has no access to it. Loading is not among these
  operations: it takes the year and month columns as the file has them.
\<close>

theorem add_record_resolved_date:
  "(\<forall>d a. to_datetime e (dict_get (in_date record) []) = Inr d \<and>
          py_float e (dict_get (in_amount record) (PyFloat 0)) = Inr a \<longrightarrow>
      add_record e record s =
        (None,
         s\<lparr>df := df s @ [\<lparr>date = d,
                             provider = dict_get (in_provider record) [],
                             amount = a,
                             category = dict_get (in_category record) ''medical'',
                             description = dict_get (in_description record) [],
                             pdf_path = dict_get (in_pdf_path record) [],
                             year = dt_year d,
                             month = dt_month d,
                             added_on = now e (ticks s)\<rparr>],
           ticks := Suc (ticks s)\<rparr>)) \<and>
   (\<forall>x a. to_datetime e (dict_get (in_date record) []) = Inl x \<and>
          py_float e (dict_get (in_amount record) (PyFloat 0)) = Inr a \<longrightarrow>
      add_record e record s =
        (None,
         s\<lparr>df := df s @ [\<lparr>date = Ts (now e (ticks s)),
                             provider = dict_get (in_provider record) [],
                             amount = a,
                             category = dict_get (in_category record) ''medical'',
                             description = dict_get (in_description record) [],
                             pdf_path = dict_get (in_pdf_path record) [],
                             year = Some (ts_year (now e (ticks s))),
                             month = Some (ts_month (now e (ticks s))),
                             added_on = now e (Suc (ticks s))\<rparr>],
           ticks := Suc (Suc (ticks s))\<rparr>)) \<and>
   (ledger_consistent (df s) \<longrightarrow> ledger_consistent (df (snd (add_record e record s)))) \<and>
   (ledger_consistent (df s) \<longrightarrow> ledger_consistent (df (snd (save e s)))) \<and>
   df (snd (export_for_taxes e yr p s)) = df s \<and>
   df (snd (export_hsa_reconciliation e p s)) = df s"
proof -
  have a: "\<forall>d a. to_datetime e (dict_get (in_date record) []) = Inr d \<and>
          py_float e (dict_get (in_amount record) (PyFloat 0)) = Inr a \<longrightarrow>
      add_record e record s =
        (None,
         s\<lparr>df := df s @ [\<lparr>date = d,
                             provider = dict_get (in_provider record) [],
                             amount = a,
                             category = dict_get (in_category record) ''medical'',
                             description = dict_get (in_description record) [],
                             pdf_path = dict_get (in_pdf_path record) [],
                             year = dt_year d,
                             month = dt_month d,
                             added_on = now e (ticks s)\<rparr>],
           ticks := Suc (ticks s)\<rparr>)"
    by (simp add: add_record_def timestamp_now_def Let_def)
  have b: "\<forall>x a. to_datetime e (dict_get (in_date record) []) = Inl x \<and>
          py_float e (dict_get (in_amount record) (PyFloat 0)) = Inr a \<longrightarrow>
      add_record e record s =
        (None,
         s\<lparr>df := df s @ [\<lparr>date = Ts (now e (ticks s)),
                             provider = dict_get (in_provider record) [],
                             amount = a,
                             category = dict_get (in_category record) ''medical'',
                             description = dict_get (in_description record) [],
                             pdf_path = dict_get (in_pdf_path record) [],
                             year = Some (ts_year (now e (ticks s))),
                             month = Some (ts_month (now e (ticks s))),
                             added_on = now e (Suc (ticks s))\<rparr>],
           ticks := Suc (Suc (ticks s))\<rparr>)"
    by (simp add: add_record_def timestamp_now_def Let_def)
  have c: "ledger_consistent (df s) \<longrightarrow> ledger_consistent (df (snd (add_record e record s)))"
    using df_add_record [of e "record" s] by (auto simp: ledger_consistent_set)
  have d: "ledger_consistent (df s) \<longrightarrow> ledger_consistent (df (snd (save e s)))"
    by (simp add: ledger_consistent_set set_df_save)
  show ?thesis
    by (rule conjI [OF a conjI [OF b conjI [OF c conjI [OF d
          conjI [OF df_export_for_taxes df_export_hsa_reconciliation]]]]])
qed

theorem add_record_resolved_date_witness:
  "to_datetime example_env (dict_get (in_date (example_input ''2024-01-15'' (PyFloat 45))) [])
     = Inr (Ts (midnight 2024 1 15)) \<and>
   py_float example_env (dict_get (in_amount (example_input ''2024-01-15'' (PyFloat 45))) (PyFloat 0))
     = Inr 45 \<and>
   ledger_consistent (df example_state) \<and>
   add_record example_env (example_input ''2024-01-15'' (PyFloat 45)) example_state =
     (None,
      example_state
        \<lparr>df := example_ledger @
                 [\<lparr>date = Ts (midnight 2024 1 15), provider = ''Dr. Smith'', amount = 45,
                   category = ''medical'', description = [], pdf_path = [],
                   year = Some 2024, month = Some 1,
                   added_on = \<lparr>ts_year = 2026, ts_month = 11, ts_day = 4, ts_nanos = 0,
                                ts_utc = False\<rparr>\<rparr>],
          ticks := 1\<rparr>) \<and>
   ledger_consistent
     (df (snd (add_record example_env (example_input ''2024-01-15'' (PyFloat 45)) example_state))) \<and>
   ledger_consistent (df (snd (save example_env example_state)))"
proof -
  have h1: "to_datetime example_env (dict_get (in_date (example_input ''2024-01-15'' (PyFloat 45))) [])
     = Inr (Ts (midnight 2024 1 15))"
    by (simp add: example_env_def example_input_def dict_get_def)
  have h2: "py_float example_env (dict_get (in_amount (example_input ''2024-01-15'' (PyFloat 45))) (PyFloat 0))
     = Inr 45"
    by (simp add: example_input_def dict_get_def)
  have h3: "ledger_consistent (df example_state)"
    by (simp add: example_state_def example_ledger_consistent)
  note spec = add_record_resolved_date
    [of example_env "example_input ''2024-01-15'' (PyFloat 45)" example_state]
  from spec h1 h2 have
    "add_record example_env (example_input ''2024-01-15'' (PyFloat 45)) example_state =
        (None,
         example_state\<lparr>df := df example_state @ [\<lparr>date = Ts (midnight 2024 1 15),
                             provider = dict_get (in_provider (example_input ''2024-01-15'' (PyFloat 45))) [],
                             amount = 45,
                             category = dict_get (in_category (example_input ''2024-01-15'' (PyFloat 45))) ''medical'',
                             description = dict_get (in_description (example_input ''2024-01-15'' (PyFloat 45))) [],
                             pdf_path = dict_get (in_pdf_path (example_input ''2024-01-15'' (PyFloat 45))) [],
                             year = dt_year (Ts (midnight 2024 1 15)),
                             month = dt_month (Ts (midnight 2024 1 15)),
                             added_on = now example_env (ticks example_state)\<rparr>],
           ticks := Suc (ticks example_state)\<rparr>)"
    by blast
  then have a: "add_record example_env (example_input ''2024-01-15'' (PyFloat 45)) example_state =
     (None,
      example_state
        \<lparr>df := example_ledger @
                 [\<lparr>date = Ts (midnight 2024 1 15), provider = ''Dr. Smith'', amount = 45,
                   category = ''medical'', description = [], pdf_path = [],
                   year = Some 2024, month = Some 1,
                   added_on = \<lparr>ts_year = 2026, ts_month = 11, ts_day = 4, ts_nanos = 0,
                                ts_utc = False\<rparr>\<rparr>],
          ticks := 1\<rparr>)"
    by (simp add: example_input_def dict_get_def example_env_def example_state_def midnight_def)
  from spec h3 have c: "ledger_consistent
     (df (snd (add_record example_env (example_input ''2024-01-15'' (PyFloat 45)) example_state)))"
    and d: "ledger_consistent (df (snd (save example_env example_state)))"
    by blast+
  show ?thesis
    by (rule conjI [OF h1 conjI [OF h2 conjI [OF h3 conjI [OF a conjI [OF c d]]]]])
qed

text \<open>
  C6 as stated fails for loading, which is one of the operations: the workbook holds a
  bill whose date is in March 2024 while its year and month cells say November 2023. The
  frame that is loaded has the year 2023 and the month 11 beside that date.
\<close>

theorem load_keeps_stored_year_counterexample:
  "load_or_create_dataframe example_env edited_state =
     ([\<lparr>date = Ts (midnight 2024 3 2), provider = ''Vision Co'', amount = 80,
        category = ''vision'', description = [], pdf_path = [], year = Some 2023,
        month = Some 11, added_on = midnight 2025 1 1\<rparr>],
      edited_state) \<and>
   \<not> ledger_consistent (fst (load_or_create_dataframe example_env edited_state))"
proof -
  have r: "read_excel example_env edited_workbook ''Bills'' =
     Inr [\<lparr>date = Ts (midnight 2024 3 2), provider = ''Vision Co'', amount = 80,
        category = ''vision'', description = [], pdf_path = [], year = Some 2023,
        month = Some 11, added_on = midnight 2025 1 1\<rparr>]"
    by (simp add: example_env_def example_read_excel_def edited_workbook_def cells_row_def
        cell_datetime_def cell_int_def cell_str_def cell_num_def cell_time_def)
  have l: "load_or_create_dataframe example_env edited_state =
     ([\<lparr>date = Ts (midnight 2024 3 2), provider = ''Vision Co'', amount = 80,
        category = ''vision'', description = [], pdf_path = [], year = Some 2023,
        month = Some 11, added_on = midnight 2025 1 1\<rparr>],
      edited_state)"
  proof -
    have f: "files edited_state (workbook_path edited_state) = Some edited_workbook"
      by (simp add: edited_state_def)
    have c: "to_datetime_column example_env d = Inr d" for d
      by (simp add: example_env_def)
    show ?thesis
      unfolding load_or_create_dataframe_def f by (simp add: r c)
  qed
  have n: "\<not> ledger_consistent (fst (load_or_create_dataframe example_env edited_state))"
    unfolding l by (simp add: ledger_consistent_def row_consistent_def midnight_def)
  show ?thesis
    by (rule conjI [OF l n])
qed

subsection \<open>C7: saving an empty ledger\<close>

text \<open>
  C7. On an empty ledger \<^verbatim>\<open>save\<close> raises nothing, prints the warning and does nothing
  else: every file, the backing file included, is what it was, no file appears, and the
  frame is unchanged.
\<close>

theorem save_empty_ledger:
  assumes "df_empty (df s)"
  shows "save e s = (None, s\<lparr>stdout := stdout s @ [''Warning: No data to save'']\<rparr>) \<and>
         files (snd (save e s)) = files s \<and> df (snd (save e s)) = df s"
  using assms by (simp add: save_def)

theorem save_empty_ledger_witness:
  "df_empty (df empty_state) \<and>
   fst (save example_env empty_state) = None \<and>
   files (snd (save example_env empty_state)) = files empty_state \<and>
   files (snd (save example_env empty_state)) ''healthcare_bills.xlsx''
     = Some (Bytes ''not a workbook'') \<and>
   stdout (snd (save example_env empty_state)) = [''Warning: No data to save'']"
proof -
  have h: "df_empty (df empty_state)"
    by (simp add: empty_state_def df_empty_def)
  from h save_empty_ledger [OF h, of example_env] show ?thesis
    by (simp add: empty_state_def example_state_def)
qed

subsection \<open>C8: loading\<close>

text \<open>
  C8. \<^verbatim>\<open>_load_or_create_dataframe\<close> always returns a frame. Without a file at the
  workbook path it returns the empty frame and prints nothing. With a file on which
  \<^verbatim>\<open>read_excel\<close> or the conversion of the date column raises, it prints the warning and
  returns the empty frame. Otherwise it returns the frame read. The empty frame has no
  rows and the nine columns: written as a sheet it is the nine-name header alone.
\<close>

theorem load_never_fails:
  "(files s (workbook_path s) = None \<longrightarrow>
      load_or_create_dataframe e s = (create_empty_dataframe, s)) \<and>
   (\<forall>f x. files s (workbook_path s) = Some f \<and> read_excel e f ''Bills'' = Inl x \<longrightarrow>
      load_or_create_dataframe e s =
        (create_empty_dataframe,
         s\<lparr>stdout := stdout s @ [''Warning: Could not load existing file: '' @ str_error x]\<rparr>)) \<and>
   (\<forall>f d x. files s (workbook_path s) = Some f \<and> read_excel e f ''Bills'' = Inr d \<and>
            to_datetime_column e d = Inl x \<longrightarrow>
      load_or_create_dataframe e s =
        (create_empty_dataframe,
         s\<lparr>stdout := stdout s @ [''Warning: Could not load existing file: '' @ str_error x]\<rparr>)) \<and>
   (\<forall>f d d'. files s (workbook_path s) = Some f \<and> read_excel e f ''Bills'' = Inr d \<and>
            to_datetime_column e d = Inr d' \<longrightarrow>
      load_or_create_dataframe e s = (d', s)) \<and>
   df_empty create_empty_dataframe \<and>
   bills_sheet create_empty_dataframe =
     ([''date'', ''provider'', ''amount'', ''category'', ''description'', ''pdf_path'', ''year'',
       ''month'', ''added_on''], [])"
  by (simp add: load_or_create_dataframe_def create_empty_dataframe_def df_empty_def
      bills_sheet_def bill_columns_def)

theorem load_never_fails_witness:
  "files example_state (workbook_path example_state) = Some (Bytes ''not a workbook'') \<and>
   read_excel example_env (Bytes ''not a workbook'') ''Bills''
     = Inl (LibraryError ''File is not a zip file'') \<and>
   load_or_create_dataframe example_env example_state =
     ([], example_state\<lparr>stdout := [''Warning: Could not load existing file: File is not a zip file'']\<rparr>) \<and>
   files (example_state\<lparr>workbook_path := ''none.xlsx''\<rparr>) ''none.xlsx'' = None \<and>
   load_or_create_dataframe example_env (example_state\<lparr>workbook_path := ''none.xlsx''\<rparr>) =
     ([], example_state\<lparr>workbook_path := ''none.xlsx''\<rparr>)"
proof -
  have h1: "files example_state (workbook_path example_state) = Some (Bytes ''not a workbook'')"
    by (simp add: example_state_def)
  have h2: "read_excel example_env (Bytes ''not a workbook'') ''Bills''
     = Inl (LibraryError ''File is not a zip file'')"
    by (simp add: example_env_def example_read_excel_def)
  have h3: "files (example_state\<lparr>workbook_path := ''none.xlsx''\<rparr>)
              (workbook_path (example_state\<lparr>workbook_path := ''none.xlsx''\<rparr>)) = None"
    by (simp add: example_state_def)
  from h1 h2 h3 load_never_fails [of example_state example_env]
    load_never_fails [of "example_state\<lparr>workbook_path := ''none.xlsx''\<rparr>" example_env]
  show ?thesis
    by (simp add: create_empty_dataframe_def str_error_def example_state_def)
qed


subsection \<open>C10: an amount that is not a number\<close>

text \<open>
  C10. When \<^verbatim>\<open>float\<close> raises on the amount of the input, \<^verbatim>\<open>add_record\<close> raises that
  error; the frame and the files are what they were before the call.
\<close>

theorem add_record_amount_not_coercible:
  assumes "py_float e (dict_get (in_amount record) (PyFloat 0)) = Inl err"
  shows "fst (add_record e record s) = Some err \<and>
         df (snd (add_record e record s)) = df s \<and>
         files (snd (add_record e record s)) = files s"
  using assms
  by (simp add: add_record_def timestamp_now_def Let_def split: sum.splits prod.splits)

theorem add_record_amount_not_coercible_witness:
  "py_float example_env (dict_get (in_amount (example_input ''2024-01-15'' (PyStr ''N/A''))) (PyFloat 0))
     = Inl (ValueError (''could not convert string to float: '' @ [CHR 0x27] @ ''N/A'' @ [CHR 0x27])) \<and>
   fst (add_record example_env (example_input ''2024-01-15'' (PyStr ''N/A'')) example_state)
     = Some (ValueError (''could not convert string to float: '' @ [CHR 0x27] @ ''N/A'' @ [CHR 0x27])) \<and>
   df (snd (add_record example_env (example_input ''2024-01-15'' (PyStr ''N/A'')) example_state))
     = example_ledger"
proof -
  have h: "py_float example_env (dict_get (in_amount (example_input ''2024-01-15'' (PyStr ''N/A''))) (PyFloat 0))
     = Inl (ValueError (''could not convert string to float: '' @ [CHR 0x27] @ ''N/A'' @ [CHR 0x27]))"
    by (simp add: example_env_def example_input_def dict_get_def)
  from h add_record_amount_not_coercible [OF h, of example_state]
  show ?thesis by (simp add: example_state_def)
qed

subsection \<open>C3: the summary\<close>











subsection \<open>C4: the tax export of a year\<close>











subsection \<open>C5: the HSA export\<close>









subsection \<open>C9: the sheets that save writes\<close>

lemma group_keys_set:
  "group_keys key d = sorted_list_of_set {k. \<exists>r\<in>set d. key r = Some k}"
  by (simp add: group_keys_def sorted_list_of_set_sort_remdups flip: set_map_filter_key)

lemma sum_filter_perm:
  assumes "mset d = mset d'"
  shows "sum_list (map amount (filter P d)) = sum_list (map amount (filter P d'))"
proof -
  have "mset (map amount (filter P d)) = mset (map amount (filter P d'))"
    using assms by simp
  then show ?thesis by (metis sum_mset_sum_list)
qed

lemma length_filter_perm:
  assumes "mset d = mset d'"
  shows "length (filter P d) = length (filter P d')"
proof -
  have "mset (filter P d) = mset (filter P d')"
    using assms by simp
  then show ?thesis by (metis size_mset)
qed


lemma year_summary_eq:
  "year_summary d =
     map (\<lambda>k. (k, sum_list (map amount (filter (\<lambda>r. year r = Some k) d)),
                length (filter (\<lambda>r. year r = Some k) d)))
       (sorted_list_of_set {k. \<exists>r\<in>set d. year r = Some k})"
  by (simp add: year_summary_def groupby_def series_sum_def count_provider_def group_keys_set)

lemma category_summary_eq:
  "category_summary d =
     map (\<lambda>k. (k, sum_list (map amount (filter (\<lambda>r. category r = k) d)),
                length (filter (\<lambda>r. category r = k) d)))
       (sorted_list_of_set {k. \<exists>r\<in>set d. category r = k})"
  by (simp add: category_summary_def groupby_def series_sum_def count_provider_def group_keys_set
      category_key_def)

lemma provider_summary_eq:
  "provider_summary d =
     sort_amount_desc
       (map (\<lambda>k. (k, sum_list (map amount (filter (\<lambda>r. provider r = k) d)),
                    length (filter (\<lambda>r. provider r = k \<and> date r \<noteq> NaT) d)))
          (sorted_list_of_set {k. \<exists>r\<in>set d. provider r = k}))"
  by (simp add: provider_summary_def groupby_def series_sum_def count_date_def group_keys_set
      provider_key_def comp_def)

lemma year_summary_perm: "mset d = mset d' \<Longrightarrow> year_summary d = year_summary d'"
  unfolding year_summary_eq
  using sum_filter_perm [of d d'] length_filter_perm [of d d'] mset_eq_setD [of d d']
  by simp

lemma category_summary_perm: "mset d = mset d' \<Longrightarrow> category_summary d = category_summary d'"
  unfolding category_summary_eq
  using sum_filter_perm [of d d'] length_filter_perm [of d d'] mset_eq_setD [of d d']
  by simp

lemma provider_summary_perm: "mset d = mset d' \<Longrightarrow> provider_summary d = provider_summary d'"
  unfolding provider_summary_eq
  using sum_filter_perm [of d d'] length_filter_perm [of d d'] mset_eq_setD [of d d']
  by simp

lemma mset_sort_amount_desc: "mset (sort_amount_desc xs) = mset xs"
  by (simp add: sort_amount_desc_def)

lemma sorted_sort_amount_desc: "sorted (rev (map (\<lambda>(k, a, n). a) (sort_amount_desc xs)))"
  by (simp add: sort_amount_desc_def flip: rev_map)


lemma list_ex_sort_values_date: "list_ex P (sort_values_date asc d) = list_ex P d"
  by (simp add: list_ex_iff set_sort_values_date)

lemma save_nonempty:
  assumes "df s \<noteq> []" and "\<not> list_ex tz_aware (df s)"
  shows "save e s =
    (None,
     s\<lparr>df := sort_values_date False (df s),
        files := (files s)(workbook_path s \<mapsto>
           Workbook ((''Bills'', bills_sheet (sort_values_date False (df s)))
                     # write_summary_sheets (sort_values_date False (df s)))),
        stdout := stdout s @ [''Saved to '' @ workbook_path s]\<rparr>)"
  using assms by (simp add: save_def df_empty_def Let_def list_ex_sort_values_date)

lemma write_summary_sheets_sorted:
  assumes "d \<noteq> []"
  shows "write_summary_sheets (sort_values_date asc d) =
     [(''By Year'',
       ([''year'', ''amount'', ''num_bills''],
        map (\<lambda>(k, a, n). [CInt k, CNum a, CInt (int n)]) (year_summary d))),
      (''By Category'',
       ([''category'', ''amount'', ''num_bills''],
        map (\<lambda>(k, a, n). [CStr k, CNum a, CInt (int n)]) (category_summary d))),
      (''By Provider'',
       ([''provider'', ''amount'', ''num_bills''],
        map (\<lambda>(k, a, n). [CStr k, CNum a, CInt (int n)]) (provider_summary d)))]"
proof -
  have ne: "sort_values_date asc d \<noteq> []"
    using assms length_sort_values_date [of asc d] by (metis length_0_conv)
  have p: "mset (sort_values_date asc d) = mset d"
    by (rule mset_sort_values_date)
  show ?thesis
    unfolding write_summary_sheets_def df_empty_def
      year_summary_perm [OF p] category_summary_perm [OF p] provider_summary_perm [OF p]
    using ne by simp
qed

text \<open>
  What \<^verbatim>\<open>save\<close> writes for a ledger with at least one record and no aware date. The
  workbook has four sheets. \<^verbatim>\<open>Bills\<close> holds the records (the same multiset) in descending
  date order, undated records last, and the frame is left in that order. \<^verbatim>\<open>By Year\<close> and
  \<^verbatim>\<open>By Category\<close> have, for each key that occurs and in ascending key order, the sum of
  the amounts and the number of the records with that key. \<^verbatim>\<open>By Provider\<close> has a line for
  each provider, with the sum of the amounts and the number of its records that have a
  date, in descending order of the sum. What is written does not depend on the files that
  were there, and no other file changes.
\<close>

lemma save_writes_sheets:
  assumes "df s \<noteq> []" and "\<not> list_ex tz_aware (df s)"
  shows "\<exists>bills providers.
     df (snd (save e s)) = bills \<and> mset bills = mset (df s) \<and> date_descending bills \<and>
     files (snd (save e s)) (workbook_path s) =
       Some (Workbook
         [(''Bills'',
           ([''date'', ''provider'', ''amount'', ''category'', ''description'', ''pdf_path'',
             ''year'', ''month'', ''added_on''],
            map bills_cells bills)),
          (''By Year'',
           ([''year'', ''amount'', ''num_bills''],
            map (\<lambda>k. [CInt k,
                       CNum (sum_list (map amount (filter (\<lambda>r. year r = Some k) (df s)))),
                       CInt (int (length (filter (\<lambda>r. year r = Some k) (df s))))])
              (sorted_list_of_set {k. \<exists>r\<in>set (df s). year r = Some k}))),
          (''By Category'',
           ([''category'', ''amount'', ''num_bills''],
            map (\<lambda>k. [CStr k,
                       CNum (sum_list (map amount (filter (\<lambda>r. category r = k) (df s)))),
                       CInt (int (length (filter (\<lambda>r. category r = k) (df s))))])
              (sorted_list_of_set {k. \<exists>r\<in>set (df s). category r = k}))),
          (''By Provider'',
           ([''provider'', ''amount'', ''num_bills''],
            map (\<lambda>(k, a, n). [CStr k, CNum a, CInt (int n)]) providers))]) \<and>
     mset providers =
       mset (map (\<lambda>k. (k, sum_list (map amount (filter (\<lambda>r. provider r = k) (df s))),
                         length (filter (\<lambda>r. provider r = k \<and> date r \<noteq> NaT) (df s))))
               (sorted_list_of_set {k. \<exists>r\<in>set (df s). provider r = k})) \<and>
     sorted (rev (map (\<lambda>(k, a, n). a) providers)) \<and>
     (\<forall>fs. files (snd (save e (s\<lparr>files := fs\<rparr>))) (workbook_path s) = files (snd (save e s)) (workbook_path s)) \<and>
     (\<forall>p. p \<noteq> workbook_path s \<longrightarrow> files (snd (save e s)) p = files s p)"
proof -
  let ?bills = "sort_values_date False (df s)"
  let ?providers = "provider_summary (df s)"
  have 1: "df (snd (save e s)) = ?bills"
    by (simp add: save_nonempty [OF assms])
  have 2: "mset ?bills = mset (df s)"
    by (rule mset_sort_values_date)
  have 3: "date_descending ?bills"
    by (rule date_descending_sort_values)
  have 4: "files (snd (save e s)) (workbook_path s) =
       Some (Workbook
         [(''Bills'',
           ([''date'', ''provider'', ''amount'', ''category'', ''description'', ''pdf_path'',
             ''year'', ''month'', ''added_on''],
            map bills_cells ?bills)),
          (''By Year'',
           ([''year'', ''amount'', ''num_bills''],
            map (\<lambda>k. [CInt k,
                       CNum (sum_list (map amount (filter (\<lambda>r. year r = Some k) (df s)))),
                       CInt (int (length (filter (\<lambda>r. year r = Some k) (df s))))])
              (sorted_list_of_set {k. \<exists>r\<in>set (df s). year r = Some k}))),
          (''By Category'',
           ([''category'', ''amount'', ''num_bills''],
            map (\<lambda>k. [CStr k,
                       CNum (sum_list (map amount (filter (\<lambda>r. category r = k) (df s)))),
                       CInt (int (length (filter (\<lambda>r. category r = k) (df s))))])
              (sorted_list_of_set {k. \<exists>r\<in>set (df s). category r = k}))),
          (''By Provider'',
           ([''provider'', ''amount'', ''num_bills''],
            map (\<lambda>(k, a, n). [CStr k, CNum a, CInt (int n)]) ?providers))])"
    by (simp add: save_nonempty [OF assms] write_summary_sheets_sorted [OF assms(1)]
        bills_sheet_def bill_columns_def year_summary_eq category_summary_eq comp_def)
  have 5: "mset ?providers =
       mset (map (\<lambda>k. (k, sum_list (map amount (filter (\<lambda>r. provider r = k) (df s))),
                         length (filter (\<lambda>r. provider r = k \<and> date r \<noteq> NaT) (df s))))
               (sorted_list_of_set {k. \<exists>r\<in>set (df s). provider r = k}))"
    unfolding provider_summary_eq by (rule mset_sort_amount_desc)
  have 6: "sorted (rev (map (\<lambda>(k, a, n). a) ?providers))"
    unfolding provider_summary_eq by (rule sorted_sort_amount_desc)
  have 7: "\<forall>fs. files (snd (save e (s\<lparr>files := fs\<rparr>))) (workbook_path s) = files (snd (save e s)) (workbook_path s)"
    using assms by (simp add: save_def df_empty_def Let_def list_ex_sort_values_date)
  have 8: "\<forall>p. p \<noteq> workbook_path s \<longrightarrow> files (snd (save e s)) p = files s p"
    by (simp add: save_nonempty [OF assms])
  from 1 2 3 4 5 6 7 8 show ?thesis by blast
qed




lemma undated_state_df:
  "df undated_state =
     [\<lparr>date = NaT, provider = ''Dr. Under'', amount = 7, category = ''medical'',
       description = [], pdf_path = [], year = None, month = None,
       added_on = \<lparr>ts_year = 2026, ts_month = 11, ts_day = 4, ts_nanos = 0, ts_utc = False\<rparr>\<rparr>]"
  by (simp add: undated_state_def add_record_def timestamp_now_def Let_def example_env_def
      undated_input_def fresh_state_def dict_get_def)

lemma undated_state_rest:
  "workbook_path undated_state = ''healthcare_bills.xlsx''"
  by (simp add: undated_state_def add_record_def timestamp_now_def Let_def example_env_def
      undated_input_def fresh_state_def dict_get_def)

text \<open>
  C9. The claim asks of \<^verbatim>\<open>By Year\<close>, \<^verbatim>\<open>By Category\<close> and \<^verbatim>\<open>By Provider\<close> alike the sum of
  the amounts of each group and the count of its bills, as \<^verbatim>\<open>num_bills\<close>. The code counts
  the column \<^verbatim>\<open>provider\<close> for the first two and the column \<^verbatim>\<open>date\<close> for the third, and
  a count skips missing values. Here a bill is added without a date to a new ledger and
  the ledger is saved: the bill is counted under its category, and \<^verbatim>\<open>By Provider\<close> gives
  its provider the amount 7 and \<^verbatim>\<open>num_bills\<close> 0.
\<close>

theorem save_undated_bill_not_counted:
  "fst (add_record example_env undated_input fresh_state) = None \<and>
   length (df undated_state) = 1 \<and>
   provider (hd (df undated_state)) = ''Dr. Under'' \<and>
   date (hd (df undated_state)) = NaT \<and>
   fst (save example_env undated_state) = None \<and>
   read_sheet (snd (save example_env undated_state)) ''healthcare_bills.xlsx'' ''By Category'' =
     Some ([''category'', ''amount'', ''num_bills''], [[CStr ''medical'', CNum 7, CInt 1]]) \<and>
   read_sheet (snd (save example_env undated_state)) ''healthcare_bills.xlsx'' ''By Provider'' =
     Some ([''provider'', ''amount'', ''num_bills''], [[CStr ''Dr. Under'', CNum 7, CInt 0]])"
proof -
  have a: "fst (add_record example_env undated_input fresh_state) = None"
    by (simp add: add_record_def timestamp_now_def Let_def example_env_def undated_input_def
        dict_get_def)
  have ne: "df undated_state \<noteq> []"
    by (simp add: undated_state_df)
  have na: "\<not> list_ex tz_aware (df undated_state)"
    by (simp add: undated_state_df tz_aware_def)
  have c: "category_summary (df undated_state) = [(''medical'', 7, 1)]"
    by (simp add: undated_state_df category_summary_def groupby_def group_keys_def
        series_sum_def count_provider_def category_key_def)
  have p: "provider_summary (df undated_state) = [(''Dr. Under'', 7, 0)]"
    by (simp add: undated_state_df provider_summary_def groupby_def group_keys_def
        series_sum_def count_date_def provider_key_def sort_amount_desc_def)
  have s: "fst (save example_env undated_state) = None"
    by (simp add: save_nonempty [OF ne na])
  have sc: "read_sheet (snd (save example_env undated_state)) ''healthcare_bills.xlsx'' ''By Category'' =
     Some ([''category'', ''amount'', ''num_bills''], [[CStr ''medical'', CNum 7, CInt 1]])"
    by (simp add: save_nonempty [OF ne na] write_summary_sheets_sorted [OF ne] read_sheet_def
        undated_state_rest c)
  have sp: "read_sheet (snd (save example_env undated_state)) ''healthcare_bills.xlsx'' ''By Provider'' =
     Some ([''provider'', ''amount'', ''num_bills''], [[CStr ''Dr. Under'', CNum 7, CInt 0]])"
    by (simp add: save_nonempty [OF ne na] write_summary_sheets_sorted [OF ne] read_sheet_def
        undated_state_rest p)
  from a s sc sp show ?thesis
    by (simp add: undated_state_df)
qed

text \<open>
  A bill whose date string is an ISO date that ends in \<^verbatim>\<open>Z\<close> has an aware date. Saving
  the ledger that holds it raises \<^verbatim>\<open>ValueError\<close>, and the backing file that was there is
  replaced by what the writer had written.
\<close>

lemma save_aware_date_raises:
  "fst (save example_env aware_state) =
     Some (ValueError ''Excel does not support datetimes with timezones. Please ensure that datetimes are timezone unaware before writing to Excel.'') \<and>
   files (example_state\<lparr>df := []\<rparr>) ''healthcare_bills.xlsx'' = Some (Bytes ''not a workbook'') \<and>
   files (snd (save example_env aware_state)) ''healthcare_bills.xlsx'' =
     Some (Workbook [(''Bills'', (bill_columns, []))])"
  by (simp add: aware_state_def add_record_def timestamp_now_def Let_def example_env_def
      example_input_def example_state_def dict_get_def save_def df_empty_def tz_aware_def
      tz_naive_def sort_values_date_def midnight_def)

subsection \<open>C2: the monthly summary of the tax export\<close>























end
